theory Spec2Isabelle
  imports Main
begin

section \<open>The Cloudflare request dispatcher of \<^verbatim>\<open>src/services/cloudflare.ts\<close>\<close>

text \<open>
  The module keeps one cache (a \<^verbatim>\<open>Map\<close> from endpoint path to the last result and
  the time it was stored), sends every request through \<^verbatim>\<open>retriedRequest\<close>, which calls
  \<^verbatim>\<open>fetch\<close> in a loop, and verifies the API token when the module is loaded.

  The embedding passes the state explicitly. Everything outside the module (the clock,
  the network and the remote API) is part of a \<open>world\<close> record, so that each function
  is a pure function from the world before the call to a result and the world after it.
\<close>

subsection \<open>Errors and promises\<close>

text \<open>
  The values thrown. The two \<^verbatim>\<open>new Error(...)\<close> of \<^verbatim>\<open>request\<close> are
  \<^item> \<open>TransportExhausted\<close>: \<^verbatim>\<open>'Failed to send request to Cloudflare API.'\<close>;
  \<^item> \<open>ApiError endpoint status\<close>:
    \<^verbatim>\<open>`Failed to send request to Cloudflare API on path ${endpoint} with status ${response.status}.`\<close>.
  \<open>FetchError\<close> is whatever \<^verbatim>\<open>fetch\<close> rejects with (network error, DNS failure, timeout),
  and \<open>BodyError\<close> is what \<^verbatim>\<open>await response.json()\<close> followed by \<^verbatim>\<open>json.result\<close> throws:
  the body is no JSON text, or it is \<^verbatim>\<open>null\<close>.
\<close>

datatype error =
    TransportExhausted
  | ApiError string nat
  | FetchError
  | BodyError

text \<open>
  An \<^verbatim>\<open>async\<close> function never throws into its caller: it returns a promise, which is
  modelled by the state it settles in. Only \<^verbatim>\<open>await\<close> turns a rejected promise into an
  exception of the awaiting function.
\<close>

datatype 'a promise = Fulfilled 'a | Rejected error

definition await :: "'a promise \<Rightarrow> error + 'a" where
  "await p = (case p of Fulfilled v \<Rightarrow> Inr v | Rejected e \<Rightarrow> Inl e)"

subsection \<open>Data\<close>

text \<open>
  Modelled from the spec: the type declaration \<^verbatim>\<open>CloudflareResponse<T>\<close>
  (\<^verbatim>\<open>src/types/CloudflareResponse.d.ts\<close>) is not among the sources; the spec gives the
  envelope as \<^verbatim>\<open>{ success, errors, messages, result }\<close>. The code reads \<^verbatim>\<open>result\<close> only.
\<close>

record 'a CloudflareResponse =
  success :: bool
  errors :: "string list"
  messages :: "string list"
  result :: 'a

text \<open>
  What the module reads of a node-fetch \<^verbatim>\<open>Response\<close>: \<^verbatim>\<open>ok\<close>, \<^verbatim>\<open>status\<close>, and the
  outcome of \<^verbatim>\<open>json()\<close> and the read of \<^verbatim>\<open>result\<close> (\<open>None\<close> when one of them throws: the
  body is no JSON text, or it is \<^verbatim>\<open>null\<close>; any other body gives an envelope, whose
  \<^verbatim>\<open>result\<close> may be the value \<^verbatim>\<open>undefined\<close>). node-fetch sets
  \<^verbatim>\<open>ok\<close> for the statuses 200 to 299; the module reads the flag itself, so the model
  keeps it as a field of its own and covers every response.
\<close>

record 'a response =
  ok :: bool
  status :: nat
  json :: "'a CloudflareResponse option"

text \<open>
  The arguments of one \<^verbatim>\<open>fetch\<close> call. \<open>req_bearer\<close> is the \<^verbatim>\<open>token\<close> argument of the
  \<^verbatim>\<open>Authorization\<close> header, \<open>None\<close> standing for the module constant \<^verbatim>\<open>API_KEY\<close>
  (\<^verbatim>\<open>token ?? API_KEY\<close>); \<open>req_headers\<close> are \<^verbatim>\<open>Content-Type\<close> followed by the caller's
  headers, in the order of the object literal, where a later entry of the same name
  overrides an earlier one; \<open>req_body\<close> is the JSON text of the body. The constant \<^verbatim>\<open>API_KEY\<close> is read
  only when no token is given, and the functions that give none are exported, so they
  run only once the module has bound it; a body is taken to be one that
  \<^verbatim>\<open>JSON.stringify\<close> accepts (no function of the module passes a body at all). So
  building the arguments never throws, and every round of the loop reaches \<^verbatim>\<open>fetch\<close>.
\<close>

record http_request =
  req_url :: string
  req_method :: string
  req_bearer :: "string option"
  req_headers :: "(string \<times> string) list"
  req_body :: "string option"

text \<open>
  One answer of the network: how long the call took, in milliseconds, and whether the
  promise of \<^verbatim>\<open>fetch\<close> was fulfilled with a response or rejected. The clock moves only
  while a call is under way; the time to read the body of a response is part of the
  latency of its call.
\<close>

record 'a attempt =
  latency :: nat
  outcome :: "'a response promise"

text \<open>An entry of \<^verbatim>\<open>cache\<close>: \<^verbatim>\<open>{ result: any; time: Date }\<close>, the time in milliseconds.\<close>

record 'a cache_entry =
  result :: 'a
  time :: int

text \<open>
  The state: the module variable \<^verbatim>\<open>cache\<close>; the clock (\<^verbatim>\<open>Date.now()\<close>); the number of
  \<^verbatim>\<open>fetch\<close> calls made so far; the network, which answers the \<open>n\<close>-th call of the process
  for a given request; and the lines written by \<^verbatim>\<open>console.error\<close>.
\<close>

record 'a world =
  cache :: "string \<rightharpoonup> 'a cache_entry"
  now :: int
  calls :: nat
  net :: "nat \<Rightarrow> http_request \<Rightarrow> 'a attempt"
  console :: "string list"

subsection \<open>Transport and the retry loop\<close>

text \<open>
  One call of \<^verbatim>\<open>fetch\<close>: the network answers, the call is counted, and the clock has
  advanced by the latency when the promise settles.
\<close>

definition fetch :: "'a world \<Rightarrow> http_request \<Rightarrow> 'a response promise \<times> 'a world" where
  "fetch w req =
     (let a = net w (calls w) req
      in (outcome a, w\<lparr>calls := calls w + 1, now := now w + int (latency a)\<rparr>))"

text \<open>
  The loop of \<^verbatim>\<open>retriedRequest\<close>,
  \<^verbatim>\<open>while (!response && tries < 10) { try { response = await fetch(...) } catch (err) { tries++; continue } }\<close>,
  with the two loop variables as arguments.
\<close>

function retriedRequest_loop ::
  "'a world \<Rightarrow> http_request \<Rightarrow> 'a response option \<Rightarrow> nat \<Rightarrow> 'a response option \<times> 'a world" where
  "retriedRequest_loop w req response tries =
     (if response = None \<and> tries < 10 then
        (let (p, w') = fetch w req in
         case await p of
           Inr r \<Rightarrow> retriedRequest_loop w' req (Some r) tries
         | Inl err \<Rightarrow> retriedRequest_loop w' req response (tries + 1))
      else (response, w))"
  by pat_completeness auto
termination
  by (relation "measure (\<lambda>(w, req, response, tries).
        2 * (10 - tries) + (if response = None then 1 else 0))") auto

declare retriedRequest_loop.simps [simp del]

text \<open>The arguments that \<^verbatim>\<open>retriedRequest\<close> gives to \<^verbatim>\<open>fetch\<close> in every round of the loop.\<close>

definition fetch_args ::
  "string \<Rightarrow> string \<Rightarrow> (string \<times> string) list option \<Rightarrow> string option \<Rightarrow> string option \<Rightarrow>
   http_request" where
  "fetch_args method endpoint headers body token =
     \<lparr>req_url = ''https://api.cloudflare.com/client/v4/'' @ endpoint,
      req_method = method,
      req_bearer = token,
      req_headers = (''Content-Type'', ''application/json'') #
                    (case headers of None \<Rightarrow> [] | Some hs \<Rightarrow> hs),
      req_body = body\<rparr>"

definition retriedRequest ::
  "'a world \<Rightarrow> string \<Rightarrow> string \<Rightarrow> (string \<times> string) list option \<Rightarrow> string option \<Rightarrow>
   string option \<Rightarrow> 'a response option \<times> 'a world" where
  "retriedRequest w method endpoint headers body token =
     retriedRequest_loop w (fetch_args method endpoint headers body token) None 0"

subsection \<open>The dispatcher\<close>

text \<open>
  \<^verbatim>\<open>request\<close>. The last argument is \<^verbatim>\<open>cacheTimeSeconds\<close>, \<open>None\<close> when the caller leaves
  it out and the default \<^verbatim>\<open>60 * 5\<close> applies. The clock is read where the code reads it:
  by \<^verbatim>\<open>Date.now()\<close> in the expiry test and by \<^verbatim>\<open>new Date()\<close> when the entry is stored.
\<close>

definition request ::
  "'a world \<Rightarrow> string \<Rightarrow> string \<Rightarrow> (string \<times> string) list option \<Rightarrow> string option \<Rightarrow>
   string option \<Rightarrow> int option \<Rightarrow> 'a promise \<times> 'a world" where
  "request w method endpoint headers body token cacheTime =
     (let cacheTimeSeconds = (case cacheTime of None \<Rightarrow> 60 * 5 | Some s \<Rightarrow> s);
          cacheExists = (cache w endpoint \<noteq> None);
          cacheExpired = (cacheExists \<and>
            time (the (cache w endpoint)) < now w - 1000 * cacheTimeSeconds)
      in if cacheExists \<and> \<not> cacheExpired
         then (Fulfilled (cache_entry.result (the (cache w endpoint))), w)
         else
           (let (response, w1) = retriedRequest w method endpoint headers body token in
            case response of
              None \<Rightarrow> (Rejected TransportExhausted, w1)
            | Some r \<Rightarrow>
                if \<not> ok r then (Rejected (ApiError endpoint (status r)), w1)
                else
                  (case json r of
                     None \<Rightarrow> (Rejected BodyError, w1)
                   | Some j \<Rightarrow>
                       (Fulfilled (CloudflareResponse.result j),
                        if cacheTimeSeconds > 0
                        then w1\<lparr>cache := (cache w1)(endpoint \<mapsto>
                               \<lparr>cache_entry.result = CloudflareResponse.result j,
                                time = now w1\<rparr>)\<rparr>
                        else w1))))"

subsection \<open>Token verification and module start\<close>

text \<open>
  \<^verbatim>\<open>verifyToken\<close>:
  \<^verbatim>\<open>try { request('GET', 'user/tokens/verify', undefined, undefined, token, 0); return true } catch { return false }\<close>.
  The call of \<^verbatim>\<open>request\<close> is an expression statement without \<^verbatim>\<open>await\<close>: its value, the
  promise \<open>p\<close>, is dropped, and the statement completes normally whatever \<open>p\<close> settles
  in. \<open>tried\<close> is the completion of the \<^verbatim>\<open>try\<close> block: the statement, then
  \<^verbatim>\<open>return true\<close>. The request itself goes on in the background; the world returned is
  the one after it has settled.
\<close>

definition verifyToken :: "'a world \<Rightarrow> string \<Rightarrow> bool promise \<times> 'a world" where
  "verifyToken w token =
     (let (p, w') = request w ''GET'' ''user/tokens/verify'' None None (Some token) (Some 0);
          statement = (Inr p :: error + 'a promise);
          tried = (case statement of Inl e \<Rightarrow> Inl e | Inr _ \<Rightarrow> Inr True)
      in (case tried of Inr b \<Rightarrow> Fulfilled b | Inl _ \<Rightarrow> Fulfilled False, w'))"

text \<open>
  The top-level \<^verbatim>\<open>const API_KEY = await (async () => {...})()\<close>. The argument is
  \<^verbatim>\<open>process.env.CLOUDFLARE_API_KEY\<close>. The module ends in one of three ways:
  \<^verbatim>\<open>process.exit(code)\<close>, the constant bound to the key, or a rejection of the awaited
  promise.
\<close>

datatype startup = Exit nat | Loaded string | Failed error

definition API_KEY :: "'a world \<Rightarrow> string option \<Rightarrow> startup \<times> 'a world" where
  "API_KEY w env =
     (if env = None \<or> env = Some []
      then (Exit 1, w\<lparr>console := console w @
              [''No Cloudflare API key found in environment variables.'']\<rparr>)
      else
        (let key = the env;
             (p, w') = verifyToken w key
         in case await p of
              Inl e \<Rightarrow> (Failed e, w')
            | Inr valid \<Rightarrow>
                if \<not> valid
                then (Exit 1, w'\<lparr>console := console w' @ [''Invalid Cloudflare API key.'']\<rparr>)
                else (Loaded key, w')))"

subsection \<open>Example worlds\<close>

text \<open>
  Networks and worlds for the concrete runs below: a network on which every call fails,
  one that answers every call with an error status, one that answers every call with
  an envelope around \<open>v\<close>, and one whose first \<open>k\<close> calls fail; the world of a process
  that has just started; and a world with one more cache entry.
\<close>

definition unreachable :: "nat \<Rightarrow> http_request \<Rightarrow> 'a attempt" where
  "unreachable n req = \<lparr>latency = 5, outcome = Rejected FetchError\<rparr>"

definition refusing :: "nat \<Rightarrow> nat \<Rightarrow> http_request \<Rightarrow> 'a attempt" where
  "refusing code n req =
     \<lparr>latency = 20, outcome = Fulfilled \<lparr>ok = False, status = code, json = None\<rparr>\<rparr>"

definition serving :: "'a \<Rightarrow> nat \<Rightarrow> http_request \<Rightarrow> 'a attempt" where
  "serving v n req =
     \<lparr>latency = 20,
      outcome = Fulfilled \<lparr>ok = True, status = 200,
        json = Some \<lparr>success = True, errors = [], messages = [],
                      CloudflareResponse.result = v\<rparr>\<rparr>\<rparr>"

definition flaky ::
  "nat \<Rightarrow> (nat \<Rightarrow> http_request \<Rightarrow> 'a attempt) \<Rightarrow> nat \<Rightarrow> http_request \<Rightarrow> 'a attempt" where
  "flaky k server n req = (if n < k then unreachable n req else server n req)"

definition boot :: "(nat \<Rightarrow> http_request \<Rightarrow> 'a attempt) \<Rightarrow> 'a world" where
  "boot network = \<lparr>cache = Map.empty, now = 0, calls = 0, net = network, console = []\<rparr>"

definition cached :: "string \<Rightarrow> 'a \<Rightarrow> int \<Rightarrow> 'a world \<Rightarrow> 'a world" where
  "cached endpoint v t w =
     w\<lparr>cache := (cache w)(endpoint \<mapsto> \<lparr>cache_entry.result = v, time = t\<rparr>)\<rparr>"

section \<open>Properties\<close>

subsection \<open>The retry loop\<close>

lemma loop_done: "retriedRequest_loop w req (Some r) tries = (Some r, w)"
  by (simp add: retriedRequest_loop.simps)

lemma loop_exhausted: "10 \<le> tries \<Longrightarrow> retriedRequest_loop w req None tries = (None, w)"
  by (simp add: retriedRequest_loop.simps)

lemma loop_rejected:
  "tries < 10 \<Longrightarrow> outcome (net w (calls w) req) = Rejected e \<Longrightarrow>
   retriedRequest_loop w req None tries = retriedRequest_loop (snd (fetch w req)) req None (Suc tries)"
  by (subst retriedRequest_loop.simps) (simp add: fetch_def await_def Let_def)

lemma loop_fulfilled:
  "tries < 10 \<Longrightarrow> outcome (net w (calls w) req) = Fulfilled r \<Longrightarrow>
   retriedRequest_loop w req None tries = (Some r, snd (fetch w req))"
  by (subst retriedRequest_loop.simps) (simp add: fetch_def await_def Let_def loop_done)

lemma fetch_frame [simp]:
  "cache (snd (fetch w req)) = cache w"
  "net (snd (fetch w req)) = net w"
  "console (snd (fetch w req)) = console w"
  "calls (snd (fetch w req)) = Suc (calls w)"
  by (simp_all add: fetch_def Let_def)

lemma fetch_now: "now w \<le> now (snd (fetch w req))"
  by (simp add: fetch_def Let_def)

lemma loop_frame:
  "cache (snd (retriedRequest_loop w req response tries)) = cache w \<and>
   net (snd (retriedRequest_loop w req response tries)) = net w \<and>
   console (snd (retriedRequest_loop w req response tries)) = console w \<and>
   now w \<le> now (snd (retriedRequest_loop w req response tries))"
proof (induction "10 - tries" arbitrary: w tries)
  case 0
  then show ?case
    by (cases response) (simp_all add: loop_done loop_exhausted)
next
  case (Suc n)
  show ?case
  proof (cases response)
    case (Some r)
    then show ?thesis by (simp add: loop_done)
  next
    case None
    have lt: "tries < 10" using Suc.hyps(2) by simp
    show ?thesis
    proof (cases "outcome (net w (calls w) req)")
      case (Fulfilled r)
      with None lt show ?thesis by (simp add: loop_fulfilled fetch_now)
    next
      case (Rejected e)
      have "n = 10 - Suc tries" using Suc.hyps(2) by simp
      from Suc.hyps(1)[OF this, of "snd (fetch w req)"] None
      have ih: "cache (snd (retriedRequest_loop (snd (fetch w req)) req None (Suc tries))) = cache w \<and>
        net (snd (retriedRequest_loop (snd (fetch w req)) req None (Suc tries))) = net w \<and>
        console (snd (retriedRequest_loop (snd (fetch w req)) req None (Suc tries))) = console w \<and>
        now (snd (fetch w req)) \<le> now (snd (retriedRequest_loop (snd (fetch w req)) req None (Suc tries)))"
        by simp
      from ih fetch_now[of w req]
      have "now w \<le> now (snd (retriedRequest_loop (snd (fetch w req)) req None (Suc tries)))"
        by linarith
      with ih None lt Rejected show ?thesis
        by (simp add: loop_rejected)
    qed
  qed
qed


lemma loop_all_rejected:
  "\<forall>i < 10 - tries. \<exists>e. outcome (net w (calls w + i) req) = Rejected e \<Longrightarrow>
   fst (retriedRequest_loop w req None tries) = None \<and>
   calls (snd (retriedRequest_loop w req None tries)) = calls w + (10 - tries)"
proof (induction "10 - tries" arbitrary: w tries)
  case 0
  then show ?case by (simp add: loop_exhausted)
next
  case (Suc n)
  have lt: "tries < 10" and n: "n = 10 - Suc tries" using Suc.hyps(2) by simp_all
  from Suc.prems lt obtain e where e: "outcome (net w (calls w) req) = Rejected e"
    by (metis add.right_neutral zero_less_diff)
  have "\<forall>i < 10 - Suc tries.
          \<exists>e. outcome (net (snd (fetch w req)) (calls (snd (fetch w req)) + i) req) = Rejected e"
  proof (intro allI impI)
    fix i assume "i < 10 - Suc tries"
    then have "Suc i < 10 - tries" by simp
    with Suc.prems show "\<exists>e. outcome (net (snd (fetch w req)) (calls (snd (fetch w req)) + i) req) = Rejected e"
      by (metis add_Suc add_Suc_right fetch_frame(2) fetch_frame(4))
  qed
  from Suc.hyps(1)[OF n this] lt e show ?case
    by (simp add: loop_rejected)
qed

lemma loop_first_response:
  "k < 10 - tries \<Longrightarrow>
   \<forall>i < k. \<exists>e. outcome (net w (calls w + i) req) = Rejected e \<Longrightarrow>
   outcome (net w (calls w + k) req) = Fulfilled r \<Longrightarrow>
   fst (retriedRequest_loop w req None tries) = Some r \<and>
   calls (snd (retriedRequest_loop w req None tries)) = calls w + k + 1"
proof (induction k arbitrary: w tries)
  case 0
  then show ?case by (simp add: loop_fulfilled)
next
  case (Suc k)
  have lt: "tries < 10" using Suc.prems(1) by simp
  from Suc.prems(2) obtain e where e: "outcome (net w (calls w) req) = Rejected e"
    by (metis add.right_neutral zero_less_Suc)
  have k: "k < 10 - Suc tries" using Suc.prems(1) by simp
  have rej: "\<forall>i < k. \<exists>e. outcome (net (snd (fetch w req)) (calls (snd (fetch w req)) + i) req) = Rejected e"
  proof (intro allI impI)
    fix i assume "i < k"
    then have "Suc i < Suc k" by simp
    with Suc.prems(2) show "\<exists>e. outcome (net (snd (fetch w req)) (calls (snd (fetch w req)) + i) req) = Rejected e"
      by (metis add_Suc add_Suc_right fetch_frame(2) fetch_frame(4))
  qed
  have ful: "outcome (net (snd (fetch w req)) (calls (snd (fetch w req)) + k) req) = Fulfilled r"
    using Suc.prems(3) by simp
  from Suc.IH[OF k rej ful] lt e show ?case
    by (simp add: loop_rejected)
qed

lemma loop_calls_upper:
  "calls (snd (retriedRequest_loop w req response tries)) \<le> calls w + (10 - tries)"
proof (induction "10 - tries" arbitrary: w tries)
  case 0
  then show ?case by (cases response) (simp_all add: loop_done loop_exhausted)
next
  case (Suc n)
  have lt: "tries < 10" and n: "n = 10 - Suc tries" using Suc.hyps(2) by simp_all
  show ?case
  proof (cases response)
    case (Some r)
    then show ?thesis by (simp add: loop_done)
  next
    case None
    show ?thesis
    proof (cases "outcome (net w (calls w) req)")
      case (Fulfilled r)
      with None lt show ?thesis by (simp add: loop_fulfilled)
    next
      case (Rejected e)
      from Suc.hyps(1)[OF n, of "snd (fetch w req)"] None lt Rejected show ?thesis
        by (simp add: loop_rejected)
    qed
  qed
qed

lemma loop_calls_lower:
  "calls w \<le> calls (snd (retriedRequest_loop w req response tries))"
proof (induction "10 - tries" arbitrary: w tries)
  case 0
  then show ?case by (cases response) (simp_all add: loop_done loop_exhausted)
next
  case (Suc n)
  have lt: "tries < 10" and n: "n = 10 - Suc tries" using Suc.hyps(2) by simp_all
  show ?case
  proof (cases response)
    case (Some r)
    then show ?thesis by (simp add: loop_done)
  next
    case None
    show ?thesis
    proof (cases "outcome (net w (calls w) req)")
      case (Fulfilled r)
      with None lt show ?thesis by (simp add: loop_fulfilled)
    next
      case (Rejected e)
      from Suc.hyps(1)[OF n, of "snd (fetch w req)"] None lt Rejected show ?thesis
        by (simp add: loop_rejected)
    qed
  qed
qed

lemma loop_first_call:
  "tries < 10 \<Longrightarrow> calls w < calls (snd (retriedRequest_loop w req None tries))"
proof (cases "outcome (net w (calls w) req)")
  case (Fulfilled r)
  assume "tries < 10"
  with Fulfilled show ?thesis by (simp add: loop_fulfilled)
next
  case (Rejected e)
  assume lt: "tries < 10"
  have "calls (snd (fetch w req)) \<le> calls (snd (retriedRequest_loop (snd (fetch w req)) req None (Suc tries)))"
    by (rule loop_calls_lower)
  with lt Rejected show ?thesis by (simp add: loop_rejected)
qed

subsection \<open>The dispatcher\<close>

lemma retriedRequest_frame:
  "cache (snd (retriedRequest w method endpoint headers body token)) = cache w"
  "net (snd (retriedRequest w method endpoint headers body token)) = net w"
  "console (snd (retriedRequest w method endpoint headers body token)) = console w"
  "now w \<le> now (snd (retriedRequest w method endpoint headers body token))"
  using loop_frame[of w "fetch_args method endpoint headers body token" None 0]
  by (simp_all add: retriedRequest_def)

lemma retriedRequest_calls:
  "calls w < calls (snd (retriedRequest w method endpoint headers body token))"
  "calls (snd (retriedRequest w method endpoint headers body token)) \<le> calls w + 10"
  using loop_first_call[of 0 w "fetch_args method endpoint headers body token"]
        loop_calls_upper[of w "fetch_args method endpoint headers body token" None 0]
  by (simp_all add: retriedRequest_def)

lemma request_default:
  "request w method endpoint headers body token None =
   request w method endpoint headers body token (Some 300)"
  by (simp add: request_def)

lemma request_hit:
  "cache w endpoint = Some e \<Longrightarrow> \<not> time e < now w - 1000 * ttl \<Longrightarrow>
   request w method endpoint headers body token (Some ttl) =
     (Fulfilled (cache_entry.result e), w)"
  by (simp add: request_def)

lemma request_exhausted:
  "\<forall>e. cache w endpoint = Some e \<longrightarrow> time e < now w - 1000 * ttl \<Longrightarrow>
   fst (retriedRequest w method endpoint headers body token) = None \<Longrightarrow>
   request w method endpoint headers body token (Some ttl) =
     (Rejected TransportExhausted, snd (retriedRequest w method endpoint headers body token))"
  by (cases "cache w endpoint") (auto simp add: request_def split: prod.splits)

lemma request_not_ok:
  "\<forall>e. cache w endpoint = Some e \<longrightarrow> time e < now w - 1000 * ttl \<Longrightarrow>
   fst (retriedRequest w method endpoint headers body token) = Some r \<Longrightarrow> \<not> ok r \<Longrightarrow>
   request w method endpoint headers body token (Some ttl) =
     (Rejected (ApiError endpoint (status r)),
      snd (retriedRequest w method endpoint headers body token))"
  by (cases "cache w endpoint") (auto simp add: request_def split: prod.splits)

lemma request_ok:
  "\<forall>e. cache w endpoint = Some e \<longrightarrow> time e < now w - 1000 * ttl \<Longrightarrow>
   fst (retriedRequest w method endpoint headers body token) = Some r \<Longrightarrow> ok r \<Longrightarrow>
   json r = Some j \<Longrightarrow> w1 = snd (retriedRequest w method endpoint headers body token) \<Longrightarrow>
   request w method endpoint headers body token (Some ttl) =
     (Fulfilled (CloudflareResponse.result j),
      if 0 < ttl
      then w1\<lparr>cache := (cache w1)(endpoint \<mapsto>
             \<lparr>cache_entry.result = CloudflareResponse.result j, time = now w1\<rparr>)\<rparr>
      else w1)"
  by (cases "cache w endpoint") (auto simp add: request_def split: prod.splits)

lemma request_miss_world:
  "\<forall>e. cache w endpoint = Some e \<longrightarrow> time e < now w - 1000 * ttl \<Longrightarrow>
   calls w < calls (snd (request w method endpoint headers body token (Some ttl))) \<and>
   calls (snd (request w method endpoint headers body token (Some ttl))) \<le> calls w + 10 \<and>
   now w \<le> now (snd (request w method endpoint headers body token (Some ttl)))"
  using retriedRequest_calls[of w "method" endpoint headers body token]
        retriedRequest_frame(4)[of w "method" endpoint headers body token]
  by (cases "cache w endpoint")
     (auto simp add: request_def split: prod.splits option.splits)

lemma request_rejected_cache:
  "fst (request w method endpoint headers body token cacheTime) = Rejected err \<Longrightarrow>
   cache (snd (request w method endpoint headers body token cacheTime)) = cache w"
  using retriedRequest_frame(1)[of w "method" endpoint headers body token]
  by (auto simp add: request_def Let_def split: prod.splits option.splits if_splits)

lemma request_zero_cache:
  "cache (snd (request w method endpoint headers body token (Some 0))) = cache w"
  using retriedRequest_frame(1)[of w "method" endpoint headers body token]
  by (auto simp add: request_def Let_def split: prod.splits option.splits if_splits)

lemma request_now:
  "now w \<le> now (snd (request w method endpoint headers body token cacheTime))"
  using retriedRequest_frame(4)[of w "method" endpoint headers body token]
  by (auto simp add: request_def Let_def split: prod.splits option.splits if_splits)

lemma verifyToken_true: "fst (verifyToken w token) = Fulfilled True"
  by (simp add: verifyToken_def split: prod.splits)

lemma fixtures [simp]:
  "cache (boot n) = Map.empty" "now (boot n) = 0" "calls (boot n) = 0" "net (boot n) = n"
  "console (boot n) = []"
  "cache (cached p v t w) = (cache w)(p \<mapsto> \<lparr>cache_entry.result = v, time = t\<rparr>)"
  "now (cached p v t w) = now w" "calls (cached p v t w) = calls w"
  "net (cached p v t w) = net w" "console (cached p v t w) = console w"
  by (simp_all add: boot_def cached_def)

subsection \<open>Verification and start\<close>

lemma API_KEY_outcome:
  "fst (API_KEY w env) = (if env = None \<or> env = Some [] then Exit 1 else Loaded (the env))"
proof (cases "env = None \<or> env = Some []")
  case True
  then show ?thesis by (auto simp add: API_KEY_def)
next
  case False
  obtain p w' where v: "verifyToken w (the env) = (p, w')" by (cases "verifyToken w (the env)")
  with verifyToken_true[of w "the env"] have "p = Fulfilled True" by simp
  with v False show ?thesis by (simp add: API_KEY_def await_def)
qed

subsection \<open>Running the example worlds\<close>

text \<open>The equations that evaluate a dispatch on a concrete world.\<close>

lemmas run = request_def retriedRequest_def retriedRequest_loop.simps fetch_def await_def
  fetch_args_def Let_def boot_def cached_def unreachable_def refusing_def serving_def flaky_def

text \<open>
  The first dispatch of a process whose network answers at once: one call of 20 ms, and
  the result is stored under the path with the time of its arrival.
\<close>

lemma first_dispatch:
  "request (boot (serving ''z'')) ''GET'' ''zones'' None None None (Some 300) =
   (Fulfilled ''z'',
    \<lparr>cache = [''zones'' \<mapsto> \<lparr>cache_entry.result = ''z'', time = 20\<rparr>], now = 20, calls = 1,
     net = serving ''z'', console = []\<rparr>)"
  by (simp add: run)

text \<open>
  A dispatch that finds an expired entry: the entry is replaced by the fresh result.
\<close>

lemma refresh_dispatch:
  "request ((cached ''zones'' ''old'' 0 (boot (serving ''z'')))\<lparr>now := 400000\<rparr>)
     ''GET'' ''zones'' None None None (Some 300) =
   (Fulfilled ''z'',
    \<lparr>cache = [''zones'' \<mapsto> \<lparr>cache_entry.result = ''z'', time = 400020\<rparr>], now = 400020,
     calls = 1, net = serving ''z'', console = []\<rparr>)"
  by (simp add: run)

subsection \<open>Retry budget\<close>

text \<open>
  Claim C2. Let the dispatch miss the cache. If each of the next ten calls of
  \<^verbatim>\<open>fetch\<close> is rejected, \<^verbatim>\<open>retriedRequest\<close> returns no response after exactly ten calls
  and \<^verbatim>\<open>request\<close> is rejected with the error \<^verbatim>\<open>'Failed to send request to Cloudflare API.'\<close>,
  still after exactly ten calls. If the first \<open>k < 10\<close> calls are rejected and the next
  one is fulfilled with a response \<open>r\<close>, whatever its status, the loop returns \<open>r\<close> and
  has made exactly \<open>k + 1\<close> calls.
\<close>

theorem retry_budget:
  assumes miss: "\<forall>e. cache w endpoint = Some e \<longrightarrow> time e < now w - 1000 * ttl"
  shows "((\<forall>i<10. \<exists>err. outcome (net w (calls w + i)
              (fetch_args method endpoint headers body token)) = Rejected err) \<longrightarrow>
            fst (retriedRequest w method endpoint headers body token) = None \<and>
            calls (snd (retriedRequest w method endpoint headers body token)) = calls w + 10 \<and>
            fst (request w method endpoint headers body token (Some ttl)) =
              Rejected TransportExhausted \<and>
            calls (snd (request w method endpoint headers body token (Some ttl))) = calls w + 10)
       \<and> (k < 10 \<and>
          (\<forall>i<k. \<exists>err. outcome (net w (calls w + i)
              (fetch_args method endpoint headers body token)) = Rejected err) \<and>
          outcome (net w (calls w + k) (fetch_args method endpoint headers body token)) =
            Fulfilled r \<longrightarrow>
            fst (retriedRequest w method endpoint headers body token) = Some r \<and>
            calls (snd (retriedRequest w method endpoint headers body token)) = calls w + k + 1)"
proof (intro conjI impI)
  assume all: "\<forall>i<10. \<exists>err. outcome (net w (calls w + i)
              (fetch_args method endpoint headers body token)) = Rejected err"
  from loop_all_rejected[of 0 w "fetch_args method endpoint headers body token"] all
  have none: "fst (retriedRequest w method endpoint headers body token) = None"
    and ten: "calls (snd (retriedRequest w method endpoint headers body token)) = calls w + 10"
    by (simp_all add: retriedRequest_def)
  show "fst (retriedRequest w method endpoint headers body token) = None" by (rule none)
  show "calls (snd (retriedRequest w method endpoint headers body token)) = calls w + 10"
    by (rule ten)
  from request_exhausted[OF miss none]
  show "fst (request w method endpoint headers body token (Some ttl)) = Rejected TransportExhausted"
    by simp
  from request_exhausted[OF miss none] ten
  show "calls (snd (request w method endpoint headers body token (Some ttl))) = calls w + 10"
    by simp
next
  assume h: "k < 10 \<and>
          (\<forall>i<k. \<exists>err. outcome (net w (calls w + i)
              (fetch_args method endpoint headers body token)) = Rejected err) \<and>
          outcome (net w (calls w + k) (fetch_args method endpoint headers body token)) =
            Fulfilled r"
  from loop_first_response[of k 0 w "fetch_args method endpoint headers body token" r] h
  show "fst (retriedRequest w method endpoint headers body token) = Some r"
    and "calls (snd (retriedRequest w method endpoint headers body token)) = calls w + k + 1"
    by (simp_all add: retriedRequest_def)
qed

theorem retry_budget_witness:
  "fst (request (boot unreachable :: string world) ''GET'' ''zones'' None None None (Some 300)) =
     Rejected TransportExhausted \<and>
   calls (snd (request (boot unreachable :: string world) ''GET'' ''zones'' None None None (Some 300))) = 10 \<and>
   fst (retriedRequest (boot (flaky 2 (refusing 500)) :: string world) ''GET'' ''zones'' None None None) =
     Some \<lparr>ok = False, status = 500, json = None\<rparr> \<and>
   calls (snd (retriedRequest (boot (flaky 2 (refusing 500)) :: string world) ''GET'' ''zones'' None None None)) = 3"
  using retry_budget[of "boot unreachable :: string world" "''zones''" 300 "''GET''" None None None 0
          "\<lparr>ok = False, status = 500, json = None\<rparr>"]
        retry_budget[of "boot (flaky 2 (refusing 500)) :: string world" "''zones''" 300 "''GET''" None None None 2
          "\<lparr>ok = False, status = 500, json = None\<rparr>"]
  by (simp add: unreachable_def flaky_def refusing_def)

subsection \<open>Cache hits\<close>

text \<open>
  Claim C3. If the cache holds an entry for the path that is not expired under the
  \<^verbatim>\<open>cacheTimeSeconds\<close> of the call, \<^verbatim>\<open>request\<close> is fulfilled with the stored result and
  the world is unchanged: no call of \<^verbatim>\<open>fetch\<close> is made, whatever the method. Hence two
  dispatches of a path within the time to live agree, and the second makes no call.
  When the first one misses the cache, is fulfilled with \<open>v\<close> and
  \<^verbatim>\<open>cacheTimeSeconds > 0\<close>, it has called \<^verbatim>\<open>fetch\<close> and stored \<open>v\<close> with the time of its
  end, and every later dispatch of the path up to \<open>1000 * cacheTimeSeconds\<close> milliseconds
  after that time is fulfilled with \<open>v\<close> and leaves the world as it is. When the first
  one is itself served from an entry \<open>e\<close>, so is every dispatch up to
  \<open>time e + 1000 * cacheTimeSeconds\<close>.
\<close>

theorem cache_hit_skips_network:
  "(cache w endpoint = Some e \<and> \<not> time e < now w - 1000 * ttl \<longrightarrow>
      request w method endpoint headers body token (Some ttl) =
        (Fulfilled (cache_entry.result e), w))
   \<and> ((\<forall>e0. cache w endpoint = Some e0 \<longrightarrow> time e0 < now w - 1000 * ttl) \<and>
      request w method endpoint headers body token (Some ttl) = (Fulfilled v, w1) \<and>
      0 < ttl \<and> t2 \<le> now w1 + 1000 * ttl \<longrightarrow>
      cache w1 endpoint = Some \<lparr>cache_entry.result = v, time = now w1\<rparr> \<and>
      calls w < calls w1 \<and>
      request (w1\<lparr>now := t2\<rparr>) method endpoint headers2 body2 token2 (Some ttl) =
        (Fulfilled v, w1\<lparr>now := t2\<rparr>))
   \<and> (cache w endpoint = Some e \<and> \<not> time e < now w - 1000 * ttl \<and>
      request w method endpoint headers body token (Some ttl) = (Fulfilled v, w1) \<and>
      t2 \<le> time e + 1000 * ttl \<longrightarrow>
      request (w1\<lparr>now := t2\<rparr>) method endpoint headers2 body2 token2 (Some ttl) =
        (Fulfilled v, w1\<lparr>now := t2\<rparr>))"
proof (intro conjI impI)
  assume "cache w endpoint = Some e \<and> \<not> time e < now w - 1000 * ttl"
  then show "request w method endpoint headers body token (Some ttl) =
        (Fulfilled (cache_entry.result e), w)"
    by (simp add: request_hit)
next
  assume h: "(\<forall>e0. cache w endpoint = Some e0 \<longrightarrow> time e0 < now w - 1000 * ttl) \<and>
      request w method endpoint headers body token (Some ttl) = (Fulfilled v, w1) \<and>
      0 < ttl \<and> t2 \<le> now w1 + 1000 * ttl"
  from h have miss: "\<forall>e0. cache w endpoint = Some e0 \<longrightarrow> time e0 < now w - 1000 * ttl"
    by blast
  from h have first: "request w method endpoint headers body token (Some ttl) = (Fulfilled v, w1)"
    and pos: "0 < ttl" and window: "t2 \<le> now w1 + 1000 * ttl"
    by blast+
  let ?rr = "retriedRequest w method endpoint headers body token"
  from first miss obtain r j where r: "fst ?rr = Some r" "ok r" "json r = Some j"
    by (cases "cache w endpoint")
       (auto simp add: request_def split: prod.splits option.splits if_splits)
  from request_ok[OF miss r refl] first pos
  have v: "v = CloudflareResponse.result j"
    and w1: "w1 = (snd ?rr)\<lparr>cache := (cache (snd ?rr))(endpoint \<mapsto>
               \<lparr>cache_entry.result = CloudflareResponse.result j, time = now (snd ?rr)\<rparr>)\<rparr>"
    by simp_all
  from w1 v show stored: "cache w1 endpoint = Some \<lparr>cache_entry.result = v, time = now w1\<rparr>"
    by simp
  from w1 retriedRequest_calls(1)[of w "method" endpoint headers body token]
  show "calls w < calls w1" by simp
  from window have "\<not> time \<lparr>cache_entry.result = v, time = now w1\<rparr> < now (w1\<lparr>now := t2\<rparr>) - 1000 * ttl"
    by simp
  with stored
  show "request (w1\<lparr>now := t2\<rparr>) method endpoint headers2 body2 token2 (Some ttl) =
        (Fulfilled v, w1\<lparr>now := t2\<rparr>)"
    using request_hit[of "w1\<lparr>now := t2\<rparr>" endpoint "\<lparr>cache_entry.result = v, time = now w1\<rparr>"
            ttl "method" headers2 body2 token2]
    by simp
next
  assume h: "cache w endpoint = Some e \<and> \<not> time e < now w - 1000 * ttl \<and>
      request w method endpoint headers body token (Some ttl) = (Fulfilled v, w1) \<and>
      t2 \<le> time e + 1000 * ttl"
  from h have e: "cache w endpoint = Some e" "\<not> time e < now w - 1000 * ttl"
    and first: "request w method endpoint headers body token (Some ttl) = (Fulfilled v, w1)"
    and window: "t2 \<le> time e + 1000 * ttl"
    by blast+
  from request_hit[OF e, of "method" headers body token] first
  have v: "v = cache_entry.result e" and w1: "w1 = w" by simp_all
  from window have "\<not> time e < now (w\<lparr>now := t2\<rparr>) - 1000 * ttl" by simp
  with e(1) v w1
  show "request (w1\<lparr>now := t2\<rparr>) method endpoint headers2 body2 token2 (Some ttl) =
        (Fulfilled v, w1\<lparr>now := t2\<rparr>)"
    using request_hit[of "w\<lparr>now := t2\<rparr>" endpoint e ttl "method" headers2 body2 token2]
    by simp
qed

theorem cache_hit_skips_network_witness:
  "request ((cached ''zones'' ''z'' 0 (boot unreachable))\<lparr>now := 100000\<rparr>)
     ''POST'' ''zones'' None None None (Some 300) =
     (Fulfilled ''z'', (cached ''zones'' ''z'' 0 (boot unreachable))\<lparr>now := 100000\<rparr>) \<and>
   request ((snd (request ((cached ''zones'' ''old'' 0 (boot (serving ''z'')))\<lparr>now := 400000\<rparr>)
                    ''GET'' ''zones'' None None None (Some 300)))\<lparr>now := 500020\<rparr>)
     ''GET'' ''zones'' None None None (Some 300) =
     (Fulfilled ''z'',
      (snd (request ((cached ''zones'' ''old'' 0 (boot (serving ''z'')))\<lparr>now := 400000\<rparr>)
                    ''GET'' ''zones'' None None None (Some 300)))\<lparr>now := 500020\<rparr>) \<and>
   calls (snd (request
      ((snd (request ((cached ''zones'' ''old'' 0 (boot (serving ''z'')))\<lparr>now := 400000\<rparr>)
                    ''GET'' ''zones'' None None None (Some 300)))\<lparr>now := 500020\<rparr>)
      ''GET'' ''zones'' None None None (Some 300))) = 1 \<and>
   request ((cached ''zones'' ''z'' 0 (boot unreachable))\<lparr>now := 200000\<rparr>)
     ''GET'' ''zones'' None None None (Some 300) =
     (Fulfilled ''z'', (cached ''zones'' ''z'' 0 (boot unreachable))\<lparr>now := 200000\<rparr>)"
  using cache_hit_skips_network[of "(cached ''zones'' ''z'' 0 (boot unreachable))\<lparr>now := 100000\<rparr>"
          "''zones''" "\<lparr>cache_entry.result = ''z'', time = 0\<rparr>" 300 "''POST''" None None None
          "''z''" "(cached ''zones'' ''z'' 0 (boot unreachable))\<lparr>now := 100000\<rparr>" 200000
          None None None]
        cache_hit_skips_network[of "(cached ''zones'' ''old'' 0 (boot (serving ''z'')))\<lparr>now := 400000\<rparr>"
          "''zones''" "\<lparr>cache_entry.result = ''old'', time = 0\<rparr>" 300 "''GET''" None None None
          "''z''"
          "snd (request ((cached ''zones'' ''old'' 0 (boot (serving ''z'')))\<lparr>now := 400000\<rparr>)
                    ''GET'' ''zones'' None None None (Some 300))"
          500020 None None None]
        cache_hit_skips_network[of "(cached ''zones'' ''z'' 0 (boot unreachable))\<lparr>now := 100000\<rparr>"
          "''zones''" "\<lparr>cache_entry.result = ''z'', time = 0\<rparr>" 300 "''GET''" None None None
          "''z''" "(cached ''zones'' ''z'' 0 (boot unreachable))\<lparr>now := 100000\<rparr>" 200000
          None None None]
  by (simp add: refresh_dispatch)

subsection \<open>The boundary of the time to live\<close>



subsection \<open>Dispatches that do not cache\<close>

text \<open>
  Claim C5, as amended. A dispatch with \<^verbatim>\<open>cacheTimeSeconds = 0\<close> leaves the whole cache as
  it was. If the path has no entry or one stored strictly before the first dispatch, and
  the second dispatch comes no earlier than the first ended, each of two such dispatches
  of the path calls \<^verbatim>\<open>fetch\<close> at least once and at most ten times.
\<close>

theorem ttl_zero_never_stores:
  "cache (snd (request w method endpoint headers body token (Some 0))) = cache w
   \<and> ((\<forall>e. cache w endpoint = Some e \<longrightarrow> time e < now w) \<and>
      w1 = snd (request w method endpoint headers body token (Some 0)) \<and>
      now w1 \<le> t2 \<and>
      w2 = snd (request (w1\<lparr>now := t2\<rparr>) method endpoint headers body token (Some 0)) \<longrightarrow>
      calls w < calls w1 \<and> calls w1 \<le> calls w + 10 \<and>
      calls w1 < calls w2 \<and> calls w2 \<le> calls w1 + 10)"
proof (intro conjI impI)
  show "cache (snd (request w method endpoint headers body token (Some 0))) = cache w"
    by (rule request_zero_cache)
next
  assume h: "(\<forall>e. cache w endpoint = Some e \<longrightarrow> time e < now w) \<and>
      w1 = snd (request w method endpoint headers body token (Some 0)) \<and>
      now w1 \<le> t2 \<and>
      w2 = snd (request (w1\<lparr>now := t2\<rparr>) method endpoint headers body token (Some 0))"
  from h have "\<forall>e. cache w endpoint = Some e \<longrightarrow> time e < now w" by blast
  then have old: "\<forall>e. cache w endpoint = Some e \<longrightarrow> time e < now w - 1000 * 0" by simp
  from h have w1: "w1 = snd (request w method endpoint headers body token (Some 0))"
    and later: "now w1 \<le> t2"
    and w2: "w2 = snd (request (w1\<lparr>now := t2\<rparr>) method endpoint headers body token (Some 0))"
    by blast+
  from request_miss_world[OF old, of "method" headers body token] w1
  have first: "calls w < calls w1" "calls w1 \<le> calls w + 10" "now w \<le> now w1"
    by simp_all
  have same: "cache w1 = cache w" using w1 by (simp add: request_zero_cache)
  have "\<forall>e. cache (w1\<lparr>now := t2\<rparr>) endpoint = Some e \<longrightarrow>
          time e < now (w1\<lparr>now := t2\<rparr>) - 1000 * 0"
  proof (intro allI impI)
    fix e assume "cache (w1\<lparr>now := t2\<rparr>) endpoint = Some e"
    with same have "cache w endpoint = Some e" by simp
    with old have "time e < now w" by simp
    with first(3) later show "time e < now (w1\<lparr>now := t2\<rparr>) - 1000 * 0" by simp
  qed
  from request_miss_world[OF this, of "method" headers body token] w2
  have second: "calls w1 < calls w2" "calls w2 \<le> calls w1 + 10"
    by simp_all
  from first second
  show "calls w < calls w1" and "calls w1 \<le> calls w + 10"
    and "calls w1 < calls w2" and "calls w2 \<le> calls w1 + 10"
    by simp_all
qed

theorem ttl_zero_never_stores_witness:
  "cache (snd (request (cached ''zones'' ''z'' 0 (boot (serving ''fresh'')))
             ''GET'' ''zones'' None None None (Some 0))) =
     cache (cached ''zones'' ''z'' 0 (boot (serving ''fresh''))) \<and>
   0 < calls (snd (request ((cached ''zones'' ''z'' 0 (boot (serving ''fresh'')))\<lparr>now := 1\<rparr>)
             ''GET'' ''zones'' None None None (Some 0))) \<and>
   calls (snd (request ((cached ''zones'' ''z'' 0 (boot (serving ''fresh'')))\<lparr>now := 1\<rparr>)
             ''GET'' ''zones'' None None None (Some 0))) <
   calls (snd (request
      ((snd (request ((cached ''zones'' ''z'' 0 (boot (serving ''fresh'')))\<lparr>now := 1\<rparr>)
             ''GET'' ''zones'' None None None (Some 0)))\<lparr>now := 50\<rparr>)
      ''GET'' ''zones'' None None None (Some 0)))"
  using ttl_zero_never_stores[of "cached ''zones'' ''z'' 0 (boot (serving ''fresh''))"
          "''GET''" "''zones''" None None None]
        ttl_zero_never_stores[of "(cached ''zones'' ''z'' 0 (boot (serving ''fresh'')))\<lparr>now := 1\<rparr>"
          "''GET''" "''zones''" None None None
          "snd (request ((cached ''zones'' ''z'' 0 (boot (serving ''fresh'')))\<lparr>now := 1\<rparr>)
             ''GET'' ''zones'' None None None (Some 0))"
          50
          "snd (request
      ((snd (request ((cached ''zones'' ''z'' 0 (boot (serving ''fresh'')))\<lparr>now := 1\<rparr>)
             ''GET'' ''zones'' None None None (Some 0)))\<lparr>now := 50\<rparr>)
      ''GET'' ''zones'' None None None (Some 0))"]
  by (simp add: run)

text \<open>
  The claim as it was stated fails when the entry of the path carries the time of the
  dispatch: after a first dispatch has stored its result at millisecond 20, two
  dispatches with \<^verbatim>\<open>cacheTimeSeconds = 0\<close> in that same millisecond are both served from
  the cache, and the count of \<^verbatim>\<open>fetch\<close> calls stays at one.
\<close>

theorem ttl_zero_same_millisecond:
  "calls (snd (request (boot (serving ''z'')) ''GET'' ''zones'' None None None (Some 300))) = 1 \<and>
   calls (snd (request
     (snd (request
       (snd (request (boot (serving ''z'')) ''GET'' ''zones'' None None None (Some 300)))
       ''GET'' ''zones'' None None None (Some 0)))
     ''GET'' ''zones'' None None None (Some 0))) = 1"
  by (simp add: first_dispatch) (simp add: request_def)

subsection \<open>Error statuses\<close>

text \<open>
  Claim C6. Let the dispatch miss the cache and the first response, after \<open>k < 10\<close>
  rejected calls, have \<^verbatim>\<open>ok\<close> false. Then \<^verbatim>\<open>request\<close> is rejected with the error that
  carries the endpoint and the status of that response, no call of \<^verbatim>\<open>fetch\<close> follows the
  one that was answered, and the cache is as before.
\<close>

theorem api_error_no_retry:
  assumes miss: "\<forall>e. cache w endpoint = Some e \<longrightarrow> time e < now w - 1000 * ttl"
    and k: "k < 10"
    and failures: "\<forall>i<k. \<exists>err. outcome (net w (calls w + i)
                     (fetch_args method endpoint headers body token)) = Rejected err"
    and answer: "outcome (net w (calls w + k) (fetch_args method endpoint headers body token)) =
                   Fulfilled r"
    and status: "\<not> ok r"
  shows "fst (request w method endpoint headers body token (Some ttl)) =
           Rejected (ApiError endpoint (status r)) \<and>
         calls (snd (request w method endpoint headers body token (Some ttl))) = calls w + k + 1 \<and>
         cache (snd (request w method endpoint headers body token (Some ttl))) = cache w"
proof -
  from loop_first_response[OF _ failures answer, of 0] k
  have r: "fst (retriedRequest w method endpoint headers body token) = Some r"
    and n: "calls (snd (retriedRequest w method endpoint headers body token)) = calls w + k + 1"
    by (simp_all add: retriedRequest_def)
  from request_not_ok[OF miss r status] n show ?thesis
    by (simp add: retriedRequest_frame)
qed

theorem api_error_no_retry_witness:
  "fst (request (boot (refusing 403) :: string world) ''GET'' ''zones'' None None None (Some 300)) =
     Rejected (ApiError ''zones'' 403) \<and>
   calls (snd (request (boot (refusing 403) :: string world) ''GET'' ''zones'' None None None (Some 300))) = 1 \<and>
   cache (snd (request (boot (refusing 403) :: string world) ''GET'' ''zones'' None None None (Some 300))) =
     Map.empty"
  using api_error_no_retry[of "boot (refusing 403) :: string world" "''zones''" 300 0 "''GET''"
          None None None "\<lparr>ok = False, status = 403, json = None\<rparr>"]
  by (simp add: refusing_def)

subsection \<open>Successful dispatches\<close>

text \<open>
  Claim C7. Let the dispatch miss the cache and the first response, after \<open>k < 10\<close>
  rejected calls, have \<^verbatim>\<open>ok\<close> true and a body that parses to the envelope \<open>j\<close>. Then
  \<^verbatim>\<open>request\<close> is fulfilled with the \<^verbatim>\<open>result\<close> field of \<open>j\<close> and nothing else of it. When
  \<^verbatim>\<open>cacheTimeSeconds > 0\<close> the cache afterwards maps the endpoint to that result and the
  clock reading at the end of the dispatch, and is otherwise unchanged; when
  \<^verbatim>\<open>cacheTimeSeconds\<close> is not positive the cache is as before. A call that leaves
  \<^verbatim>\<open>cacheTimeSeconds\<close> out behaves as one with \<^verbatim>\<open>60 * 5\<close>.
\<close>

theorem success_unwraps_result:
  assumes miss: "\<forall>e. cache w endpoint = Some e \<longrightarrow> time e < now w - 1000 * ttl"
    and k: "k < 10"
    and failures: "\<forall>i<k. \<exists>err. outcome (net w (calls w + i)
                     (fetch_args method endpoint headers body token)) = Rejected err"
    and answer: "outcome (net w (calls w + k) (fetch_args method endpoint headers body token)) =
                   Fulfilled r"
    and status: "ok r"
    and envelope: "json r = Some j"
  shows "fst (request w method endpoint headers body token (Some ttl)) =
           Fulfilled (CloudflareResponse.result j) \<and>
         cache (snd (request w method endpoint headers body token (Some ttl))) =
           (if 0 < ttl
            then (cache w)(endpoint \<mapsto>
                   \<lparr>cache_entry.result = CloudflareResponse.result j,
                    time = now (snd (request w method endpoint headers body token (Some ttl)))\<rparr>)
            else cache w) \<and>
         now w \<le> now (snd (request w method endpoint headers body token (Some ttl))) \<and>
         request w method endpoint headers body token None =
           request w method endpoint headers body token (Some (60 * 5))"
proof -
  from loop_first_response[OF _ failures answer, of 0] k
  have r: "fst (retriedRequest w method endpoint headers body token) = Some r"
    by (simp add: retriedRequest_def)
  from request_ok[OF miss r status envelope refl]
  have "fst (request w method endpoint headers body token (Some ttl)) =
           Fulfilled (CloudflareResponse.result j)"
    and "cache (snd (request w method endpoint headers body token (Some ttl))) =
           (if 0 < ttl
            then (cache w)(endpoint \<mapsto>
                   \<lparr>cache_entry.result = CloudflareResponse.result j,
                    time = now (snd (request w method endpoint headers body token (Some ttl)))\<rparr>)
            else cache w)"
    by (simp_all add: retriedRequest_frame)
  then show ?thesis
    by (simp add: request_now request_default)
qed

theorem success_unwraps_result_witness:
  "fst (request (boot (serving ''z'')) ''GET'' ''zones'' None None None (Some 300)) = Fulfilled ''z'' \<and>
   cache (snd (request (boot (serving ''z'')) ''GET'' ''zones'' None None None (Some 300))) =
     [''zones'' \<mapsto> \<lparr>cache_entry.result = ''z'', time = 20\<rparr>] \<and>
   cache (snd (request (boot (flaky 3 (serving ''z''))) ''GET'' ''zones'' None None None (Some 0))) =
     Map.empty"
  using success_unwraps_result[of "boot (serving ''z'')" "''zones''" 300 0 "''GET''" None None None
          "\<lparr>ok = True, status = 200,
            json = Some \<lparr>success = True, errors = [], messages = [], CloudflareResponse.result = ''z''\<rparr>\<rparr>"
          "\<lparr>success = True, errors = [], messages = [], CloudflareResponse.result = ''z''\<rparr>"]
        success_unwraps_result[of "boot (flaky 3 (serving ''z''))" "''zones''" 0 3 "''GET''" None None None
          "\<lparr>ok = True, status = 200,
            json = Some \<lparr>success = True, errors = [], messages = [], CloudflareResponse.result = ''z''\<rparr>\<rparr>"
          "\<lparr>success = True, errors = [], messages = [], CloudflareResponse.result = ''z''\<rparr>"]
  by (simp add: serving_def flaky_def unreachable_def first_dispatch)

subsection \<open>Failed dispatches\<close>

text \<open>
  Claim C9. Whenever \<^verbatim>\<open>request\<close> is rejected, with any error, the cache after the
  dispatch is the cache before it.
\<close>

theorem failure_leaves_cache:
  assumes "fst (request w method endpoint headers body token cacheTime) = Rejected err"
  shows "cache (snd (request w method endpoint headers body token cacheTime)) = cache w"
  using assms by (rule request_rejected_cache)

theorem failure_leaves_cache_witness:
  "fst (request ((cached ''zones'' ''z'' 0 (boot unreachable))\<lparr>now := 400000\<rparr>)
          ''GET'' ''zones'' None None None (Some 300)) = Rejected TransportExhausted \<and>
   cache (snd (request ((cached ''zones'' ''z'' 0 (boot unreachable))\<lparr>now := 400000\<rparr>)
          ''GET'' ''zones'' None None None (Some 300))) =
     [''zones'' \<mapsto> \<lparr>cache_entry.result = ''z'', time = 0\<rparr>] \<and>
   fst (request ((cached ''zones'' ''z'' 0 (boot (refusing 500)))\<lparr>now := 400000\<rparr>)
          ''GET'' ''zones'' None None None (Some 300)) = Rejected (ApiError ''zones'' 500) \<and>
   cache (snd (request ((cached ''zones'' ''z'' 0 (boot (refusing 500)))\<lparr>now := 400000\<rparr>)
          ''GET'' ''zones'' None None None (Some 300))) =
     [''zones'' \<mapsto> \<lparr>cache_entry.result = ''z'', time = 0\<rparr>]"
proof -
  have a: "fst (request ((cached ''zones'' ''z'' 0 (boot unreachable))\<lparr>now := 400000\<rparr>)
          ''GET'' ''zones'' None None None (Some 300)) = Rejected TransportExhausted"
    by (simp add: run)
  have b: "fst (request ((cached ''zones'' ''z'' 0 (boot (refusing 500)))\<lparr>now := 400000\<rparr>)
          ''GET'' ''zones'' None None None (Some 300)) = Rejected (ApiError ''zones'' 500)"
    by (simp add: run)
  from a b failure_leaves_cache[OF a] failure_leaves_cache[OF b] show ?thesis
    by simp
qed

subsection \<open>Expiry under the time to live of the current call\<close>



subsection \<open>Verification of a token\<close>

text \<open>
  Claim C1. The claim does not hold of the code: the promise of \<^verbatim>\<open>request\<close> is not
  awaited. On a network that answers every call with status 403, and on one where every
  call fails, the dispatch of \<^verbatim>\<open>user/tokens/verify\<close> is rejected and \<^verbatim>\<open>verifyToken\<close> is
  fulfilled with \<^verbatim>\<open>true\<close> all the same.
\<close>

theorem verifyToken_misses_failure:
  "fst (request (boot (refusing 403) :: string world)
          ''GET'' ''user/tokens/verify'' None None (Some ''revoked'') (Some 0)) =
     Rejected (ApiError ''user/tokens/verify'' 403) \<and>
   fst (verifyToken (boot (refusing 403) :: string world) ''revoked'') = Fulfilled True \<and>
   fst (request (boot unreachable :: string world)
          ''GET'' ''user/tokens/verify'' None None (Some ''revoked'') (Some 0)) =
     Rejected TransportExhausted \<and>
   fst (verifyToken (boot unreachable :: string world) ''revoked'') = Fulfilled True"
  by (simp add: verifyToken_true) (simp add: run)

text \<open>
  Claim C8. The claim does not hold of the code, for the same reason: with a key in the
  environment that the remote side answers with status 403, the module binds
  \<^verbatim>\<open>API_KEY\<close> to that key instead of leaving the process.
\<close>

theorem startup_accepts_rejected_token:
  "fst (request (boot (refusing 403) :: string world)
          ''GET'' ''user/tokens/verify'' None None (Some ''revoked'') (Some 0)) =
     Rejected (ApiError ''user/tokens/verify'' 403) \<and>
   fst (API_KEY (boot (refusing 403) :: string world) (Some ''revoked'')) = Loaded ''revoked''"
  by (simp add: API_KEY_outcome) (simp add: run)

end
